theory Spec2Isabelle
  imports Complex_Main
begin

unbundle bit_operations_syntax

section \<open>Asynchronous timing generation (\<^verbatim>\<open>cardio_audio_sleep/utils/async_timings.py\<close>)\<close>

text \<open>
  The module holds one function, \<^verbatim>\<open>generate_async_timings\<close>. It takes the timings of a
  synchronous block, calls an outlier filter on the inter-stimulus delays, judges the
  outcome against a percentage, and draws a new sequence of delays.

  Python's unbounded integers are modelled as \<^typ>\<open>int\<close>, array sizes as \<^typ>\<open>nat\<close>, and
  the double-precision numbers of the timings and thresholds as the \<^typ>\<open>real\<close> numbers they
  denote. Two operations of the function round: the subtractions of \<^verbatim>\<open>np.diff\<close>, exact
  here, and the division behind the verdict, which is an argument of the model. The
  arguments are well-typed by construction, so the three \<^verbatim>\<open>_check_type\<close> calls at the
  head of the function have no branch here.
\<close>

subsection \<open>Errors and results\<close>

text \<open>
  The exceptions the function body can raise: \<^verbatim>\<open>ValueError\<close> (the explicit \<^verbatim>\<open>raise\<close> on
  \<^verbatim>\<open>valid_perc\<close>, and numpy's refusal to draw from an empty population), \<^verbatim>\<open>IndexError\<close>
  (an index outside an array) and \<^verbatim>\<open>ZeroDivisionError\<close> (the division by \<^verbatim>\<open>n - 1\<close>).
\<close>

datatype error = ValueError | IndexError | ZeroDivisionError

text \<open>
  One record of the logger: the three arguments of the \<^verbatim>\<open>logger.warning\<close> call, namely
  \<^verbatim>\<open>valids.size\<close>, \<^verbatim>\<open>n - 1\<close> and \<^verbatim>\<open>valid_perc\<close>.
\<close>

type_synonym warning = "nat \<times> int \<times> real"

text \<open>
  What a call that does not raise leaves behind: the returned pair
  \<^verbatim>\<open>(timings | None, valid)\<close> and the warnings it logged.
\<close>

type_synonym outcome = "(real list option \<times> bool) \<times> warning list"

subsection \<open>The numpy operations used\<close>

text \<open>\<^verbatim>\<open>np.diff\<close> on a one-dimensional array: the consecutive differences.\<close>

fun np_diff :: "real list \<Rightarrow> real list" where
  "np_diff [] = []"
| "np_diff [x] = []"
| "np_diff (x # y # xs) = (y - x) # np_diff (y # xs)"

text \<open>
  \<^verbatim>\<open>~outliers\<close>. The filter returns an array of integer indices (see below), and on an
  integer array \<^verbatim>\<open>~\<close> is the bitwise complement of each entry: \<open>NOT i = - i - 1\<close>. It is
  not the logical negation of a boolean mask.
\<close>

definition invert :: "int list \<Rightarrow> int list" where
  "invert idx = map (\<lambda>i. NOT i) idx"

text \<open>
  \<^verbatim>\<open>a[idx]\<close> with an array of integer indices: the entries of \<open>a\<close> at these indices, in the
  order of \<open>idx\<close>. A negative index \<open>j\<close> counts from the end and stands for
  \<open>j + len(a)\<close>; numpy raises \<^verbatim>\<open>IndexError\<close> when an index is outside
  \<open>[- len(a), len(a))\<close>. An empty index array selects nothing.
\<close>

definition take_indices :: "real list \<Rightarrow> int list \<Rightarrow> error + real list" where
  "take_indices a idx =
     (if list_all (\<lambda>j. - int (length a) \<le> j \<and> j < int (length a)) idx
      then Inr (map (\<lambda>j. a ! nat (if j < 0 then j + int (length a) else j)) idx)
      else Inl IndexError)"

text \<open>
  \<^verbatim>\<open>np.random.choice(a, size=sz, replace=True)\<close>. The process-wide generator is made an
  explicit argument \<open>rng\<close>: \<open>rng k\<close> is the raw number behind the \<open>k\<close>-th draw, which
  selects the entry \<open>rng k mod length a\<close> of the population. numpy raises
  \<^verbatim>\<open>ValueError\<close> on an empty population and on a negative size.
\<close>

definition random_choice :: "(nat \<Rightarrow> nat) \<Rightarrow> real list \<Rightarrow> int \<Rightarrow> error + real list" where
  "random_choice rng a sz =
     (if a = [] \<or> sz < 0 then Inl ValueError
      else Inr (map (\<lambda>k. a ! (rng k mod length a)) [0..<nat sz]))"

subsection \<open>The outlier filter\<close>

text \<open>
  Modelled from the spec: \<^verbatim>\<open>_find_outliers\<close> is imported from
  \<^verbatim>\<open>mne.preprocessing.bads\<close> and its code is not part of the repository. The iteration
  below follows the specification's description of it (section 4.2): start with nothing
  flagged; on each iteration take the mean and the standard deviation of the intervals not
  yet flagged, flag each of them whose absolute z-score exceeds the threshold; stop when an
  iteration flags nothing new, or after \<open>max_iter\<close> iterations. A standard deviation of
  zero flags nothing.

  What the routine hands back is not the boolean mask itself but
  \<^verbatim>\<open>np.where(my_mask)[0]\<close>: the array of the indices of the flagged intervals, in
  increasing order. This is the value that line 57 of the source receives.

  \<open>generate_async_timings\<close> below takes the filter as an argument, so what is proved of it
  for every filter does not depend on this definition; the definition supplies the filter at
  concrete inputs.
\<close>

definition mean :: "real list \<Rightarrow> real" where
  "mean xs = sum_list xs / real (length xs)"

definition std :: "real list \<Rightarrow> real" where
  "std xs = sqrt (sum_list (map (\<lambda>x. (x - mean xs)\<^sup>2) xs) / real (length xs))"

definition local_bad :: "real list \<Rightarrow> real \<Rightarrow> bool list \<Rightarrow> bool list" where
  "local_bad X threshold flags =
     (let kept = map fst (filter (\<lambda>(x, flagged). \<not> flagged) (zip X flags));
          m = mean kept;
          s = std kept
      in map (\<lambda>(x, flagged). \<not> flagged \<and> s \<noteq> 0 \<and> \<bar>(x - m) / s\<bar> > threshold) (zip X flags))"

fun find_outliers_loop :: "nat \<Rightarrow> real list \<Rightarrow> real \<Rightarrow> bool list \<Rightarrow> bool list" where
  "find_outliers_loop 0 X threshold flags = flags"
| "find_outliers_loop (Suc i) X threshold flags =
     (let bad = local_bad X threshold flags;
          flags' = map (\<lambda>(a, b). a \<or> b) (zip flags bad)
      in if True \<notin> set bad then flags' else find_outliers_loop i X threshold flags')"

text \<open>\<^verbatim>\<open>np.where(flags)[0]\<close>: the indices at which a boolean array is true.\<close>

definition np_where :: "bool list \<Rightarrow> int list" where
  "np_where flags = map int (filter (\<lambda>i. flags ! i) [0..<length flags])"

definition find_outliers :: "real list \<Rightarrow> real \<Rightarrow> nat \<Rightarrow> int list" where
  "find_outliers X threshold max_iter =
     np_where (find_outliers_loop max_iter X threshold (replicate (length X) False))"

subsection \<open>The division behind the verdict\<close>

text \<open>
  \<^verbatim>\<open>100 * valids.size / (n - 1)\<close> divides two Python integers and yields the double
  nearest to their quotient. \<open>generate_async_timings\<close> takes this division as an argument
  \<open>truediv\<close>, so that what is proved for every \<open>truediv\<close> holds for the rounding division
  too. \<open>exact_div\<close> is the division without rounding; it agrees with the rounding one
  wherever the quotient is itself a double, as are the quotients \<open>400 / 10\<close>, \<open>200 / 10\<close>
  and \<open>200 / 2\<close> of the concrete calls below.
\<close>

definition exact_div :: "int \<Rightarrow> int \<Rightarrow> real" where
  "exact_div a b = real_of_int a / real_of_int b"

subsection \<open>The synthesis loop\<close>

text \<open>
  \<^verbatim>\<open>for k, delay in enumerate(delays): timings[k + 1] = timings[-1] + delay\<close>.
  The first argument is the counter of \<^verbatim>\<open>enumerate\<close>. \<^verbatim>\<open>timings[-1]\<close> reads the last
  entry of the array; both the read on an empty array and a write at an index past the end
  raise \<^verbatim>\<open>IndexError\<close>. The sum is exact: it is only ever formed with a zero.
\<close>

fun synth_loop :: "nat \<Rightarrow> real list \<Rightarrow> real list \<Rightarrow> error + real list" where
  "synth_loop k [] timings = Inr timings"
| "synth_loop k (delay # delays) timings =
     (if timings = [] \<or> length timings \<le> k + 1 then Inl IndexError
      else synth_loop (k + 1) delays (timings[k + 1 := last timings + delay]))"

subsection \<open>\<^verbatim>\<open>generate_async_timings\<close>\<close>

text \<open>
  The function, statement by statement. \<open>outlier_filter\<close> stands for \<^verbatim>\<open>_find_outliers\<close>
  and is called as the source calls it, with \<^verbatim>\<open>threshold=zscore\<close> and \<^verbatim>\<open>max_iter=3\<close>.
  Line 57, \<^verbatim>\<open>valids = diff[~outliers]\<close>, applies \<open>invert\<close> to the index array and then
  indexes: for each flagged index \<open>i\<close> it takes the entry \<open>- i - 1\<close> of \<open>diff\<close>, the
  \<open>i\<close>-th from the end.
\<close>

definition generate_async_timings ::
  "(int \<Rightarrow> int \<Rightarrow> real) \<Rightarrow> (real list \<Rightarrow> real \<Rightarrow> nat \<Rightarrow> int list) \<Rightarrow> (nat \<Rightarrow> nat) \<Rightarrow>
   real list \<Rightarrow> real \<Rightarrow> real \<Rightarrow> error + outcome" where
  "generate_async_timings truediv outlier_filter rng sequence_timings zscore valid_perc =
     (if valid_perc < 0 \<or> 100 < valid_perc then Inl ValueError
      else
        let n = int (length sequence_timings);
            diff = np_diff sequence_timings;
            outliers = outlier_filter diff zscore 3
        in case take_indices diff (invert outliers) of
             Inl e \<Rightarrow> Inl e
           | Inr valids \<Rightarrow>
               if length valids = 0 then Inr ((None, False), [])
               else if n - 1 = 0 then Inl ZeroDivisionError
               else
                 let valid = (truediv (100 * int (length valids)) (n - 1) < valid_perc);
                     logged = (if \<not> valid then [(length valids, n - 1, valid_perc)] else [])
                 in (case random_choice rng valids (n - 1) of
                       Inl e \<Rightarrow> Inl e
                     | Inr delays \<Rightarrow>
                         (case synth_loop 0 delays (replicate (nat n) 0) of
                            Inl e \<Rightarrow> Inl e
                          | Inr timings \<Rightarrow> Inr ((Some timings, valid), logged))))"

subsection \<open>The cleaned interval set of the specification\<close>

text \<open>
  The specification (section 3) calls cleaned interval subset the intervals filtered by the
  negation of the outlier mask: the intervals whose index the filter did not flag, in order.
  The definition follows these words. It is not what line 57 computes; the claims speak of
  it, and it is used to state them.
\<close>

definition spec_cleaned :: "real list \<Rightarrow> int list \<Rightarrow> real list" where
  "spec_cleaned diff outliers =
     map (\<lambda>i. diff ! i) (filter (\<lambda>i. int i \<notin> set outliers) [0..<length diff])"

section \<open>Properties\<close>

subsection \<open>The numpy operations\<close>

lemma length_np_diff: "length (np_diff xs) = length xs - 1"
  by (induction xs rule: np_diff.induct) simp_all

lemma take_indices_sound:
  assumes "take_indices a idx = Inr valids"
  shows "length valids = length idx" and "set valids \<subseteq> set a" and "valids \<noteq> [] \<Longrightarrow> a \<noteq> []"
proof -
  from assms have range: "\<forall>j \<in> set idx. - int (length a) \<le> j \<and> j < int (length a)"
    by (auto simp: take_indices_def list_all_iff split: if_splits)
  from assms have v: "valids = map (\<lambda>j. a ! nat (if j < 0 then j + int (length a) else j)) idx"
    by (auto simp: take_indices_def split: if_splits)
  show "length valids = length idx"
    unfolding v by simp
  show "set valids \<subseteq> set a"
  proof
    fix x assume "x \<in> set valids"
    then obtain j where j: "j \<in> set idx" and x: "x = a ! nat (if j < 0 then j + int (length a) else j)"
      unfolding v by auto
    from range j have "nat (if j < 0 then j + int (length a) else j) < length a"
      by auto
    with x show "x \<in> set a" by simp
  qed
  then show "valids \<noteq> [] \<Longrightarrow> a \<noteq> []"
    by (cases valids) auto
qed

text \<open>
  The loop, started on an array whose first \<open>k + 1\<close> entries are \<open>pre\<close> and whose other
  entries are still zero, one for each delay to come, writes the delays one after the other
  behind \<open>pre\<close>: the last entry is zero each time it is read, up to and including the
  iteration that overwrites it.
\<close>

lemma synth_loop_fills:
  "length pre = Suc k \<Longrightarrow>
   synth_loop k delays (pre @ replicate (length delays) 0) = Inr (pre @ delays)"
proof (induction delays arbitrary: k pre)
  case Nil
  then show ?case by simp
next
  case (Cons d ds)
  have upd: "(pre @ replicate (length (d # ds)) 0)[k + 1 := last (pre @ replicate (length (d # ds)) 0) + d]
      = (pre @ [d]) @ replicate (length ds) 0"
    using Cons.prems by (simp add: list_update_append)
  have "synth_loop k (d # ds) (pre @ replicate (length (d # ds)) 0)
      = synth_loop (k + 1) ds ((pre @ [d]) @ replicate (length ds) 0)"
    using Cons.prems upd by simp
  also have "\<dots> = Inr ((pre @ [d]) @ ds)"
    using Cons.prems by (intro Cons.IH) simp
  finally show ?case by simp
qed

text \<open>
  A draw from a non-empty population succeeds and yields members of the population; and
  every sequence of members of the population is the draw of some state of the generator,
  so a statement about every \<open>rng\<close> is a statement about every possible draw.
\<close>

lemma random_choice_draws:
  assumes "a \<noteq> []" and "0 \<le> sz"
  shows "\<exists>delays. random_choice rng a sz = Inr delays \<and> length delays = nat sz \<and> set delays \<subseteq> set a"
  using assms by (auto simp: random_choice_def)

lemma random_choice_covers:
  assumes "set ds \<subseteq> set a" and nonempty: "a \<noteq> []"
  shows "\<exists>rng. random_choice rng a (int (length ds)) = Inr ds"
proof -
  have "\<forall>k. \<exists>i. k < length ds \<longrightarrow> i < length a \<and> a ! i = ds ! k"
    using assms by (metis in_set_conv_nth nth_mem subsetD)
  then obtain f where f: "\<And>k. k < length ds \<Longrightarrow> f k < length a \<and> a ! f k = ds ! k"
    by metis
  have "map (\<lambda>k. a ! (f k mod length a)) [0..<length ds] = ds"
    by (rule nth_equalityI) (simp_all add: f)
  with nonempty show ?thesis
    by (auto simp: random_choice_def intro: exI[of _ f])
qed

subsection \<open>A call that reaches the synthesis\<close>

text \<open>
  When the array \<open>valids\<close> of line 57 is non-empty, the sequence has at least two entries,
  the division and the draw succeed, and the call returns \<open>0\<close> followed by the drawn delays,
  together with the verdict of the comparison \<^verbatim>\<open><\<close> and the warning that goes with it.
\<close>

lemma valids_nonempty_length:
  assumes "take_indices (np_diff ts) idx = Inr valids" and "valids \<noteq> []"
  shows "2 \<le> length ts"
proof -
  have "np_diff ts \<noteq> []"
    by (rule take_indices_sound(3)[OF assms])
  then have "0 < length (np_diff ts)"
    by simp
  then have "0 < length ts - 1"
    by (simp only: length_np_diff)
  then show ?thesis by linarith
qed

lemma generate_async_timings_synthesis:
  assumes vp: "0 \<le> valid_perc" "valid_perc \<le> 100"
    and cl: "take_indices (np_diff ts) (invert (fo (np_diff ts) zscore 3)) = Inr valids"
    and ne: "valids \<noteq> []"
  shows "\<exists>delays. random_choice rng valids (int (length ts) - 1) = Inr delays \<and>
           length delays = length ts - 1 \<and> set delays \<subseteq> set valids \<and>
           generate_async_timings truediv fo rng ts zscore valid_perc =
             Inr ((Some (0 # delays),
                   truediv (100 * int (length valids)) (int (length ts) - 1) < valid_perc),
                  if truediv (100 * int (length valids)) (int (length ts) - 1) < valid_perc
                  then [] else [(length valids, int (length ts) - 1, valid_perc)])"
proof -
  have n2: "2 \<le> length ts" by (rule valids_nonempty_length[OF cl ne])
  then have sz: "0 \<le> int (length ts) - 1" by linarith
  from random_choice_draws[OF ne sz, of rng] obtain delays where
    d: "random_choice rng valids (int (length ts) - 1) = Inr delays"
    and dl: "length delays = nat (int (length ts) - 1)"
    and ds: "set delays \<subseteq> set valids" by blast
  have dl': "length delays = length ts - 1" using dl by simp
  have "nat (int (length ts)) = Suc (length delays)"
    using n2 dl' by simp
  then have "replicate (nat (int (length ts))) (0::real) = [0] @ replicate (length delays) 0"
    by (simp only: replicate_Suc append_Cons append_Nil)
  then have loop: "synth_loop 0 delays (replicate (nat (int (length ts))) 0) = Inr (0 # delays)"
    using synth_loop_fills[of "[0]" 0 delays] by simp
  have nz: "int (length ts) - 1 \<noteq> 0" using n2 by linarith
  have "generate_async_timings truediv fo rng ts zscore valid_perc =
             Inr ((Some (0 # delays),
                   truediv (100 * int (length valids)) (int (length ts) - 1) < valid_perc),
                  if truediv (100 * int (length valids)) (int (length ts) - 1) < valid_perc
                  then [] else [(length valids, int (length ts) - 1, valid_perc)])"
    unfolding generate_async_timings_def Let_def
    using vp cl ne d loop nz by simp
  with d dl' ds show ?thesis by blast
qed

lemma generate_async_timings_from_draw:
  assumes "0 \<le> valid_perc" and "valid_perc \<le> 100"
    and "take_indices (np_diff ts) (invert (fo (np_diff ts) zscore 3)) = Inr valids"
    and "valids \<noteq> []"
    and "random_choice rng valids (int (length ts) - 1) = Inr delays"
  shows "generate_async_timings truediv fo rng ts zscore valid_perc =
             Inr ((Some (0 # delays),
                   truediv (100 * int (length valids)) (int (length ts) - 1) < valid_perc),
                  if truediv (100 * int (length valids)) (int (length ts) - 1) < valid_perc
                  then [] else [(length valids, int (length ts) - 1, valid_perc)])"
  using generate_async_timings_synthesis[where fo = fo and rng = rng and truediv = truediv,
      OF assms(1-4)] assms(5)
  by auto

subsection \<open>The branches of a call\<close>

text \<open>
  With \<open>valid_perc\<close> in its range, a call ends in one of three ways: an index of line 57
  is outside the array, the array \<open>valids\<close> is empty, or it is non-empty and the synthesis
  runs.
\<close>

lemma generate_async_timings_branches:
  assumes "0 \<le> valid_perc" and "valid_perc \<le> 100"
  shows "generate_async_timings truediv fo rng ts zscore valid_perc = Inl IndexError \<or>
         generate_async_timings truediv fo rng ts zscore valid_perc = Inr ((None, False), []) \<or>
         (\<exists>valids. take_indices (np_diff ts) (invert (fo (np_diff ts) zscore 3)) = Inr valids \<and>
                   valids \<noteq> [])"
proof (cases "take_indices (np_diff ts) (invert (fo (np_diff ts) zscore 3))")
  case (Inl e)
  then have "e = IndexError"
    by (auto simp: take_indices_def split: if_splits)
  with Inl assms show ?thesis
    by (simp add: generate_async_timings_def)
next
  case (Inr valids)
  show ?thesis
  proof (cases "valids = []")
    case True
    with Inr assms show ?thesis
      by (simp add: generate_async_timings_def)
  next
    case False
    with Inr show ?thesis by blast
  qed
qed

subsection \<open>Four concrete calls\<close>

text \<open>
  The filter on four inputs. On the intervals \<open>[3, 1]\<close> the mean is \<open>2\<close> and the
  standard deviation \<open>1\<close>: both z-scores are \<open>1\<close>, below the threshold \<open>4\<close> and above
  the threshold \<open>1/1000\<close>. On the ten intervals \<open>13, 11, 23, 13, 11, 1, 13, 11, 23, 1\<close>
  the mean is \<open>12\<close> and the standard deviation \<open>7\<close>; the intervals \<open>23\<close> and \<open>1\<close> have
  the z-score \<open>11/7\<close>, above \<open>3/2\<close>, and the six that remain have mean \<open>12\<close>, standard
  deviation \<open>1\<close> and the z-score \<open>1\<close>. On the ten intervals \<open>6, 1, \<dots>, 1, 6\<close> the
  mean is \<open>2\<close> and the standard deviation \<open>2\<close>; the two intervals \<open>6\<close> have the z-score
  \<open>2\<close>, and the eight that remain are equal. Line 57 then takes, for each flagged index
  \<open>i\<close>, the interval \<open>i\<close>-th from the end.
\<close>

lemma sqrt_49: "sqrt 49 = 7"
  using real_sqrt_abs[of 7] by simp

lemma upt_2: "[0..<2] = [0, 1]"
  by (simp add: upt_rec)

lemma find_outliers_none_flagged: "find_outliers [3, 1] 4 3 = []"
  by (simp add: find_outliers_def np_where_def local_bad_def mean_def std_def numeral_3_eq_3 upt_2)

lemma find_outliers_all_flagged: "find_outliers [1, 3] (1 / 1000) 3 = [0, 1]"
  by (simp add: find_outliers_def np_where_def local_bad_def mean_def std_def numeral_3_eq_3 upt_2)

lemma find_outliers_ten:
  "find_outliers [13, 11, 23, 13, 11, 1, 13, 11, 23, 1] (3 / 2) 3 = [2, 5, 8, 9]"
  by (simp add: find_outliers_def np_where_def local_bad_def mean_def std_def numeral_3_eq_3
      sqrt_49 upt_rec)


lemma valids_none_flagged:
  "take_indices (np_diff [0, 3, 4]) (invert (find_outliers (np_diff [0, 3, 4]) 4 3)) = Inr []"
  by (simp add: find_outliers_none_flagged take_indices_def invert_def)

lemma valids_all_flagged:
  "take_indices (np_diff [0, 1, 4]) (invert (find_outliers (np_diff [0, 1, 4]) (1 / 1000) 3))
     = Inr [3, 1]"
  by (simp add: find_outliers_all_flagged take_indices_def invert_def)

lemma valids_ten:
  "take_indices (np_diff [0, 13, 24, 47, 60, 71, 72, 85, 96, 119, 120])
      (invert (find_outliers (np_diff [0, 13, 24, 47, 60, 71, 72, 85, 96, 119, 120]) (3 / 2) 3))
     = Inr [11, 11, 11, 13]"
  by (simp add: find_outliers_ten take_indices_def invert_def)


lemma cleaned_none_flagged:
  "spec_cleaned (np_diff [0, 3, 4]) (find_outliers (np_diff [0, 3, 4]) 4 3) = [3, 1]"
  by (simp add: find_outliers_none_flagged spec_cleaned_def upt_2)

lemma cleaned_all_flagged:
  "spec_cleaned (np_diff [0, 1, 4]) (find_outliers (np_diff [0, 1, 4]) (1 / 1000) 3) = []"
  by (simp add: find_outliers_all_flagged spec_cleaned_def upt_2)

lemma cleaned_ten:
  "spec_cleaned (np_diff [0, 13, 24, 47, 60, 71, 72, 85, 96, 119, 120])
      (find_outliers (np_diff [0, 13, 24, 47, 60, 71, 72, 85, 96, 119, 120]) (3 / 2) 3)
     = [13, 11, 13, 11, 13, 11]"
  by (simp add: find_outliers_ten spec_cleaned_def upt_rec)


lemma draw_all_flagged:
  "random_choice id [3, 1] (int (length [0, 1, 4 :: real]) - 1) = Inr [3, 1]"
  by (simp add: random_choice_def upt_2)

lemma draw_ten_first:
  "random_choice (\<lambda>k. 0) [11, 11, 11, 13]
      (int (length [0, 13, 24, 47, 60, 71, 72, 85, 96, 119, 120 :: real]) - 1)
     = Inr [11, 11, 11, 11, 11, 11, 11, 11, 11, 11]"
  by (simp add: random_choice_def upt_rec)

lemma draw_ten_mixed:
  "random_choice (\<lambda>k. if k = 0 then 3 else 0) [11, 11, 11, 13]
      (int (length [0, 13, 24, 47, 60, 71, 72, 85, 96, 119, 120 :: real]) - 1)
     = Inr [13, 11, 11, 11, 11, 11, 11, 11, 11, 11]"
  by (simp add: random_choice_def upt_rec)


lemma run_none_flagged:
  "generate_async_timings exact_div find_outliers rng [0, 3, 4] 4 60 = Inr ((None, False), [])"
  using valids_none_flagged by (simp add: generate_async_timings_def)

lemma run_all_flagged:
  "generate_async_timings exact_div find_outliers id [0, 1, 4] (1 / 1000) 60
     = Inr ((Some [0, 3, 1], False), [(2, 2, 60)])"
  using generate_async_timings_from_draw[where fo = find_outliers and valid_perc = 60
      and truediv = exact_div, OF _ _ valids_all_flagged _ draw_all_flagged]
  by (simp add: exact_div_def)

lemma run_ten_60:
  "generate_async_timings exact_div find_outliers (\<lambda>k. 0)
      [0, 13, 24, 47, 60, 71, 72, 85, 96, 119, 120] (3 / 2) 60
     = Inr ((Some [0, 11, 11, 11, 11, 11, 11, 11, 11, 11, 11], True), [])"
  using generate_async_timings_from_draw[where fo = find_outliers and valid_perc = 60
      and truediv = exact_div, OF _ _ valids_ten _ draw_ten_first]
  by (simp add: exact_div_def)

lemma run_ten_61:
  "generate_async_timings exact_div find_outliers (\<lambda>k. 0)
      [0, 13, 24, 47, 60, 71, 72, 85, 96, 119, 120] (3 / 2) 61
     = Inr ((Some [0, 11, 11, 11, 11, 11, 11, 11, 11, 11, 11], True), [])"
  using generate_async_timings_from_draw[where fo = find_outliers and valid_perc = 61
      and truediv = exact_div, OF _ _ valids_ten _ draw_ten_first]
  by (simp add: exact_div_def)

lemma run_ten_mixed:
  "generate_async_timings exact_div find_outliers (\<lambda>k. if k = 0 then 3 else 0)
      [0, 13, 24, 47, 60, 71, 72, 85, 96, 119, 120] (3 / 2) 60
     = Inr ((Some [0, 13, 11, 11, 11, 11, 11, 11, 11, 11, 11], True), [])"
  using generate_async_timings_from_draw[where fo = find_outliers and valid_perc = 60
      and truediv = exact_div, OF _ _ valids_ten _ draw_ten_mixed]
  by (simp add: exact_div_def)


section \<open>The claims\<close>

text \<open>
  Claim C1 (the verdict). The claim is that the verdict equals
  \<open>100 * S / (N - 1) \<ge> valid_perc\<close>, \<open>S\<close> being the number of surviving intervals, so
  that with six of ten intervals surviving the threshold \<open>60\<close> gives \<open>True\<close> and \<open>61\<close>
  gives \<open>False\<close>. The source computes \<^verbatim>\<open>100 * valids.size / (n - 1) < valid_perc\<close>, and its
  \<^verbatim>\<open>valids\<close> holds one entry for each flagged interval, not for each surviving one. The
  call below is the claim's own example: eleven timings, ten intervals, the four intervals
  at the indices \<open>2, 5, 8, 9\<close> flagged at \<open>zscore = 3/2\<close>, six surviving. The source
  compares \<open>100 * 4 / 10 = 40\<close> with the threshold and returns \<open>True\<close> at \<open>60\<close> and also
  at \<open>61\<close>, where the claim, and the docstring of the function, want \<open>False\<close>.
\<close>

theorem verdict_at_six_of_ten_surviving:
  "spec_cleaned (np_diff [0, 13, 24, 47, 60, 71, 72, 85, 96, 119, 120])
      (find_outliers (np_diff [0, 13, 24, 47, 60, 71, 72, 85, 96, 119, 120]) (3 / 2) 3)
     = [13, 11, 13, 11, 13, 11] \<and>
   generate_async_timings exact_div find_outliers (\<lambda>k. 0)
      [0, 13, 24, 47, 60, 71, 72, 85, 96, 119, 120] (3 / 2) 60
     = Inr ((Some [0, 11, 11, 11, 11, 11, 11, 11, 11, 11, 11], True), []) \<and>
   generate_async_timings exact_div find_outliers (\<lambda>k. 0)
      [0, 13, 24, 47, 60, 71, 72, 85, 96, 119, 120] (3 / 2) 61
     = Inr ((Some [0, 11, 11, 11, 11, 11, 11, 11, 11, 11, 11], True), [])"
  using cleaned_ten run_ten_60 run_ten_61 by (intro conjI)

text \<open>
  Claim C2 (running sum). The claim is that entry \<open>k + 1\<close> of the result is entry \<open>k\<close>
  plus the \<open>k\<close>-th drawn delay. The loop adds the delay to \<^verbatim>\<open>timings[-1]\<close>, the last entry
  of the array, not to entry \<open>k\<close>. On the eleven timings below six intervals survive, the
  delays drawn are \<open>13, 11, 11, \<dots>\<close>, and the call returns \<open>[0, 13, 11, 11, \<dots>]\<close>: entry
  \<open>2\<close> is \<open>11\<close>, not \<open>13 + 11\<close>.
\<close>

theorem output_is_not_the_running_sum:
  "spec_cleaned (np_diff [0, 13, 24, 47, 60, 71, 72, 85, 96, 119, 120])
      (find_outliers (np_diff [0, 13, 24, 47, 60, 71, 72, 85, 96, 119, 120]) (3 / 2) 3)
     = [13, 11, 13, 11, 13, 11] \<and>
   random_choice (\<lambda>k. if k = 0 then 3 else 0) [11, 11, 11, 13]
      (int (length [0, 13, 24, 47, 60, 71, 72, 85, 96, 119, 120 :: real]) - 1)
     = Inr [13, 11, 11, 11, 11, 11, 11, 11, 11, 11] \<and>
   generate_async_timings exact_div find_outliers (\<lambda>k. if k = 0 then 3 else 0)
      [0, 13, 24, 47, 60, 71, 72, 85, 96, 119, 120] (3 / 2) 60
     = Inr ((Some [0, 13, 11, 11, 11, 11, 11, 11, 11, 11, 11], True), []) \<and>
   [0, 13, 11, 11, 11, 11, 11, 11, 11, 11, 11 :: real] ! 2
     \<noteq> [0, 13, 11, 11, 11, 11, 11, 11, 11, 11, 11] ! 1
       + [13, 11, 11, 11, 11, 11, 11, 11, 11, 11] ! 1"
  using cleaned_ten draw_ten_mixed run_ten_mixed by simp

text \<open>
  Claim C3 (monotonicity). The claim is that the result starts at \<open>0\<close> and never
  decreases. It does start at \<open>0\<close>; but on the eleven timings below, with the delays
  \<open>13, 11, 11, \<dots>\<close> drawn, the call returns \<open>[0, 13, 11, 11, \<dots>]\<close>, which decreases from
  \<open>13\<close> to \<open>11\<close>.
\<close>

theorem output_can_decrease:
  "spec_cleaned (np_diff [0, 13, 24, 47, 60, 71, 72, 85, 96, 119, 120])
      (find_outliers (np_diff [0, 13, 24, 47, 60, 71, 72, 85, 96, 119, 120]) (3 / 2) 3)
     = [13, 11, 13, 11, 13, 11] \<and>
   generate_async_timings exact_div find_outliers (\<lambda>k. if k = 0 then 3 else 0)
      [0, 13, 24, 47, 60, 71, 72, 85, 96, 119, 120] (3 / 2) 60
     = Inr ((Some [0, 13, 11, 11, 11, 11, 11, 11, 11, 11, 11], True), []) \<and>
   hd [0, 13, 11, 11, 11, 11, 11, 11, 11, 11, 11 :: real] = 0 \<and>
   \<not> sorted [0, 13, 11, 11, 11, 11, 11, 11, 11, 11, 11 :: real]"
  using cleaned_ten run_ten_mixed by simp

text \<open>
  Claim C4 (membership of the derived intervals). The claim is that each consecutive
  difference of the result is one of the cleaned intervals. On the eleven timings below the
  surviving intervals are \<open>13\<close> and \<open>11\<close>, the array \<^verbatim>\<open>valids\<close> is \<open>[11, 11, 11, 13]\<close>,
  and the call returns \<open>[0, 13, 11, 11, \<dots>]\<close>, whose differences are
  \<open>[13, - 2, 0, \<dots>]\<close>: \<open>- 2\<close> is neither a surviving interval nor an entry of
  \<^verbatim>\<open>valids\<close>.
\<close>

theorem output_difference_outside_cleaned_set:
  "spec_cleaned (np_diff [0, 13, 24, 47, 60, 71, 72, 85, 96, 119, 120])
      (find_outliers (np_diff [0, 13, 24, 47, 60, 71, 72, 85, 96, 119, 120]) (3 / 2) 3)
     = [13, 11, 13, 11, 13, 11] \<and>
   take_indices (np_diff [0, 13, 24, 47, 60, 71, 72, 85, 96, 119, 120])
      (invert (find_outliers (np_diff [0, 13, 24, 47, 60, 71, 72, 85, 96, 119, 120]) (3 / 2) 3))
     = Inr [11, 11, 11, 13] \<and>
   generate_async_timings exact_div find_outliers (\<lambda>k. if k = 0 then 3 else 0)
      [0, 13, 24, 47, 60, 71, 72, 85, 96, 119, 120] (3 / 2) 60
     = Inr ((Some [0, 13, 11, 11, 11, 11, 11, 11, 11, 11, 11], True), []) \<and>
   np_diff [0, 13, 11, 11, 11, 11, 11, 11, 11, 11, 11] = [13, - 2, 0, 0, 0, 0, 0, 0, 0, 0] \<and>
   - 2 \<notin> set [13, 11, 13, 11, 13, 11 :: real] \<and>
   - 2 \<notin> set [11, 11, 11, 13 :: real]"
  using cleaned_ten valids_ten run_ten_mixed by simp

text \<open>
  Claim C5 (length preservation). The claim is that every input of length \<open>N \<ge> 2\<close> whose
  cleaned interval set is non-empty gets back a sequence of length \<open>N\<close>. On the timings
  \<open>[0, 3, 4]\<close>, with the default thresholds, no interval is flagged: both intervals
  survive, the index array is empty, so \<^verbatim>\<open>diff[~outliers]\<close> is empty and the call returns
  \<open>(None, False)\<close> through the branch the source marks \<^verbatim>\<open>should never happen\<close>. No sequence
  comes back.
\<close>

theorem no_sequence_when_nothing_is_flagged:
  "find_outliers (np_diff [0, 3, 4]) 4 3 = [] \<and>
   spec_cleaned (np_diff [0, 3, 4]) (find_outliers (np_diff [0, 3, 4]) 4 3) = [3, 1] \<and>
   generate_async_timings exact_div find_outliers id [0, 3, 4] 4 60 = Inr ((None, False), [])"
  using find_outliers_none_flagged cleaned_none_flagged run_none_flagged[of id] by simp

text \<open>
  Claim C6 (empty cleaned set). The claim is that when the filter flags every one of the
  \<open>N - 1\<close> intervals the call returns \<open>(None, False)\<close> and synthesises nothing. On the
  timings \<open>[0, 1, 4]\<close> with \<open>zscore = 1/1000\<close> both intervals are flagged and none
  survives; \<^verbatim>\<open>diff[~outliers]\<close> is then \<open>diff\<close> reversed, \<open>[3, 1]\<close>, which is not empty, so
  the guard of line 58 does not fire: the call draws, returns the sequence \<open>[0, 3, 1]\<close> and
  logs the warning.
\<close>

theorem all_flagged_still_synthesises:
  "find_outliers (np_diff [0, 1, 4]) (1 / 1000) 3 = [0, 1] \<and>
   spec_cleaned (np_diff [0, 1, 4]) (find_outliers (np_diff [0, 1, 4]) (1 / 1000) 3) = [] \<and>
   generate_async_timings exact_div find_outliers id [0, 1, 4] (1 / 1000) 60
     = Inr ((Some [0, 3, 1], False), [(2, 2, 60)])"
  using find_outliers_all_flagged cleaned_all_flagged run_all_flagged by simp

text \<open>
  Claim C7 (configuration error). The call raises \<^verbatim>\<open>ValueError\<close> exactly when
  \<open>valid_perc\<close> is strictly below \<open>0\<close> or strictly above \<open>100\<close>; the bounds \<open>0\<close> and
  \<open>100\<close> are accepted. The error is the same for every sequence, every filter and every
  state of the generator: none of them is looked at before it is raised.
\<close>

theorem valid_perc_out_of_range_raises:
  "generate_async_timings truediv fo rng ts zscore valid_perc = Inl ValueError
     \<longleftrightarrow> valid_perc < 0 \<or> 100 < valid_perc"
proof (cases "valid_perc < 0 \<or> 100 < valid_perc")
  case True
  then show ?thesis by (simp add: generate_async_timings_def)
next
  case False
  then have range: "0 \<le> valid_perc" "valid_perc \<le> 100" by simp_all
  have "generate_async_timings truediv fo rng ts zscore valid_perc \<noteq> Inl ValueError"
    using generate_async_timings_branches[where fo = fo and ts = ts and zscore = zscore
        and truediv = truediv and rng = rng, OF range]
  proof (elim disjE exE conjE)
    assume "generate_async_timings truediv fo rng ts zscore valid_perc = Inl IndexError"
    then show ?thesis by simp
  next
    assume "generate_async_timings truediv fo rng ts zscore valid_perc = Inr ((None, False), [])"
    then show ?thesis by simp
  next
    fix valids
    assume synth: "take_indices (np_diff ts) (invert (fo (np_diff ts) zscore 3)) = Inr valids"
      "valids \<noteq> []"
    from generate_async_timings_synthesis[where fo = fo and rng = rng and truediv = truediv,
        OF range synth]
    show ?thesis by auto
  qed
  with False show ?thesis by simp
qed

theorem valid_perc_out_of_range_raises_witness:
  "generate_async_timings exact_div find_outliers (\<lambda>k. k) [0, 3, 4] 4 150 = Inl ValueError \<and>
   generate_async_timings exact_div find_outliers (\<lambda>k. k) [0, 3, 4] 4 (- 1) = Inl ValueError \<and>
   generate_async_timings exact_div find_outliers (\<lambda>k. k) [0, 3, 4] 4 0 \<noteq> Inl ValueError \<and>
   generate_async_timings exact_div find_outliers (\<lambda>k. k) [0, 3, 4] 4 100 \<noteq> Inl ValueError"
  using valid_perc_out_of_range_raises[of exact_div find_outliers "\<lambda>k. k" "[0, 3, 4]" 4 150]
    valid_perc_out_of_range_raises[of exact_div find_outliers "\<lambda>k. k" "[0, 3, 4]" 4 "- 1"]
    valid_perc_out_of_range_raises[of exact_div find_outliers "\<lambda>k. k" "[0, 3, 4]" 4 0]
    valid_perc_out_of_range_raises[of exact_div find_outliers "\<lambda>k. k" "[0, 3, 4]" 4 100]
  by simp







end
